theory Spec2Isabelle
  imports Complex_Main "HOL-Library.Sublist"
begin

section \<open>The transport and its trace\<close>

text \<open>
  The VISA session (\<^verbatim>\<open>self.device\<close>) is the external collaborator of rigol.py. Every effect of
  the program is recorded, in order, in a trace:
  \<^item> \<open>DevWrite m\<close>: \<^verbatim>\<open>self.device.write(m)\<close>, a command sent with no reply read;
  \<^item> \<open>DevQuery q\<close>: \<^verbatim>\<open>self.device.ask(q)\<close> or \<^verbatim>\<open>self.device.query_ascii_values(q, ...)\<close>,
    a command sent and its reply read;
  \<^item> \<open>Sleep d\<close>: \<^verbatim>\<open>time.sleep(d)\<close>, with \<open>d\<close> the requested duration in seconds;
  \<^item> \<open>Print t\<close>: \<^verbatim>\<open>print(t)\<close>.
  The instrument is a function from the trace so far and the query to the text it
  replies. Failures of the bus itself (\<^verbatim>\<open>VisaIOError\<close>) are outside the model.
\<close>

datatype event = DevWrite string | DevQuery string | Sleep rat | Print string

type_synonym trace = "event list"

type_synonym instrument = "trace \<Rightarrow> string \<Rightarrow> string"

datatype py_error =
    RuntimeError string
  | IndexError
  | KeyError string
  | ValueError
  | AttributeError string
  | OverflowError

datatype pyval = PyInt int | PyStr string

definition device_write :: "string \<Rightarrow> trace \<Rightarrow> trace" where
  "device_write message s = s @ [DevWrite message]"

definition device_ask :: "instrument \<Rightarrow> string \<Rightarrow> trace \<Rightarrow> string \<times> trace" where
  "device_ask I message s = (I s message, s @ [DevQuery message])"

definition time_sleep :: "rat \<Rightarrow> trace \<Rightarrow> trace" where
  "time_sleep d s = s @ [Sleep d]"

definition print :: "string \<Rightarrow> trace \<Rightarrow> trace" where
  "print t s = s @ [Print t]"

text \<open>\<^verbatim>\<open>error[0]\<close> on a string: the one-character string at index 0, IndexError when the
  string is empty. The truth value of a string is whether it is non-empty.\<close>

definition str_item0 :: "string \<Rightarrow> py_error + string" where
  "str_item0 t = (case t of [] \<Rightarrow> Inl IndexError | c # _ \<Rightarrow> Inr [c])"

definition str_truth :: "string \<Rightarrow> bool" where
  "str_truth t = (t \<noteq> [])"

section \<open>BaseVisaDevice\<close>

text \<open>\<^verbatim>\<open>BaseVisaDevice.write\<close> (\<open>write\<close> is a keyword of Isabelle).\<close>

definition base_write :: "instrument \<Rightarrow> string \<Rightarrow> trace \<Rightarrow> (py_error + pyval) \<times> trace" where
  "base_write I message s =
     (let s1 = device_write message s;
          s2 = time_sleep (1 / 10) s1;
          (error, s3) = device_ask I ''SYST:ERR?'' s2
      in case str_item0 error of
           Inl e \<Rightarrow> (Inl e, s3)
         | Inr e0 \<Rightarrow>
             if str_truth e0
             then (Inr (PyInt 0),
                   print (''`'' @ message @ ''` recieved. No error occured'') s3)
             else (Inr (PyStr e0),
                   print (''`'' @ message @ ''` recieved. An Error occured: '' @ error) s3))"

definition reset :: "instrument \<Rightarrow> trace \<Rightarrow> (py_error + unit) \<times> trace" where
  "reset I s =
     (case base_write I ''*RST'' s of
        (Inl e, s1) \<Rightarrow> (Inl e, s1)
      | (Inr _, s1) \<Rightarrow> (Inr (), time_sleep (2 / 10) s1))"

section \<open>Python built-ins used by the program\<close>

text \<open>\<^verbatim>\<open>'{}'.format(n)\<close> for an integer: its decimal digits, with a minus sign when negative.\<close>

fun nat_digits :: "nat \<Rightarrow> string" where
  "nat_digits n =
     (if n < 10 then [''0123456789'' ! n]
      else nat_digits (n div 10) @ [''0123456789'' ! (n mod 10)])"

definition py_str_int :: "int \<Rightarrow> string" where
  "py_str_int n = (if n < 0 then CHR ''-'' # nat_digits (nat (- n)) else nat_digits (nat n))"

text \<open>
  Strings are sequences of code points below 256. \<^verbatim>\<open>str.strip()\<close> removes the white space
  of \<^verbatim>\<open>str.isspace\<close> at both ends: tab, line feed, vertical tab, form feed, carriage
  return, the four separators 0x1C to 0x1F, space, 0x85 and 0xA0. \<^verbatim>\<open>float\<close> strips less:
  the four separators 0x1C to 0x1F stay, and make it fail.
  \<^verbatim>\<open>str.upper()\<close> and \<^verbatim>\<open>str.lower()\<close> are modelled on the ASCII letters; the other
  characters are left as they are.
\<close>

definition is_space :: "char \<Rightarrow> bool" where
  "is_space c \<longleftrightarrow>
     c \<in> set [CHR 0x09, CHR 0x0A, CHR 0x0B, CHR 0x0C, CHR 0x0D, CHR 0x1C, CHR 0x1D,
              CHR 0x1E, CHR 0x1F, CHR 0x20, CHR 0x85, CHR 0xA0]"

definition is_float_space :: "char \<Rightarrow> bool" where
  "is_float_space c \<longleftrightarrow>
     c \<in> set [CHR 0x09, CHR 0x0A, CHR 0x0B, CHR 0x0C, CHR 0x0D, CHR 0x20, CHR 0x85, CHR 0xA0]"

definition strip_chars :: "(char \<Rightarrow> bool) \<Rightarrow> string \<Rightarrow> string" where
  "strip_chars P t = rev (dropWhile P (rev (dropWhile P t)))"

definition py_strip :: "string \<Rightarrow> string" where
  "py_strip t = strip_chars is_space t"

definition upper_char :: "char \<Rightarrow> char" where
  "upper_char c =
     (case map_of (zip ''abcdefghijklmnopqrstuvwxyz'' ''ABCDEFGHIJKLMNOPQRSTUVWXYZ'') c of
        Some d \<Rightarrow> d | None \<Rightarrow> c)"

definition lower_char :: "char \<Rightarrow> char" where
  "lower_char c =
     (case map_of (zip ''ABCDEFGHIJKLMNOPQRSTUVWXYZ'' ''abcdefghijklmnopqrstuvwxyz'') c of
        Some d \<Rightarrow> d | None \<Rightarrow> c)"

definition py_upper :: "string \<Rightarrow> string" where
  "py_upper t = map upper_char t"

definition py_lower :: "string \<Rightarrow> string" where
  "py_lower t = map lower_char t"

text \<open>\<^verbatim>\<open>t.replace(old, new)\<close> for a non-empty \<open>old\<close>: the occurrences of \<open>old\<close> are
  replaced from left to right, without overlap. It returns a new string; \<open>t\<close> itself is
  unchanged.\<close>

function py_replace :: "string \<Rightarrow> string \<Rightarrow> string \<Rightarrow> string" where
  "py_replace old new [] = []"
| "py_replace old new (c # cs) =
     (if old \<noteq> [] \<and> prefix old (c # cs)
      then new @ py_replace old new (drop (length old) (c # cs))
      else c # py_replace old new cs)"
  by pat_completeness auto
termination
  by (relation "measure (\<lambda>(old, new, t). length t)") (auto simp: neq_Nil_conv)

text \<open>\<^verbatim>\<open>t.split(sep)\<close> for a one-character separator: the pieces between the separators; the
  empty string gives one empty piece.\<close>

fun py_split :: "char \<Rightarrow> string \<Rightarrow> string list" where
  "py_split sep [] = [[]]"
| "py_split sep (c # cs) =
     (if c = sep then [] # py_split sep cs
      else (case py_split sep cs of [] \<Rightarrow> [[c]] | x # xs \<Rightarrow> (c # x) # xs))"

subsection \<open>Floating-point values and \<^verbatim>\<open>float()\<close>\<close>

text \<open>
  A Python float is represented by the exact value of the number it was made from:
  \<open>Finite r\<close> stands for the double nearest to the rational \<open>r\<close>. The rounding to a double
  (and the sign of zero) is not modelled; no property below depends on it.

  \<^verbatim>\<open>float(t)\<close> on a string follows the language reference: white space is stripped at both
  ends; an underscore may stand between two digits; then an optional sign and either
  \<^verbatim>\<open>inf\<close>, \<^verbatim>\<open>infinity\<close> or \<^verbatim>\<open>nan\<close> in any case, or a decimal number (digits with an optional
  point, at least one digit) with an optional exponent (\<^verbatim>\<open>e\<close> or \<^verbatim>\<open>E\<close>, an optional sign, at
  least one digit). Anything else raises ValueError.
\<close>

datatype pyfloat = Finite rat | PosInf | NegInf | NaN

definition is_digit :: "char \<Rightarrow> bool" where
  "is_digit c \<longleftrightarrow> c \<in> set ''0123456789''"

definition digit_val :: "char \<Rightarrow> nat" where
  "digit_val c = (case map_of (zip ''0123456789'' [0, 1, 2, 3, 4, 5, 6, 7, 8, 9]) c of
                    Some d \<Rightarrow> d | None \<Rightarrow> 0)"

definition digits_val :: "string \<Rightarrow> nat" where
  "digits_val ds = foldl (\<lambda>a c. 10 * a + digit_val c) 0 ds"

text \<open>An underscore is accepted only right after a digit and right before one; the
  accepted underscores are removed before the number is read.\<close>

fun strip_underscores :: "char \<Rightarrow> string \<Rightarrow> string option" where
  "strip_underscores prev [] = (if prev = CHR ''_'' then None else Some [])"
| "strip_underscores prev (c # cs) =
     (if c = CHR ''_'' then
        (if is_digit prev then strip_underscores c cs else None)
      else if prev = CHR ''_'' \<and> \<not> is_digit c then None
      else map_option ((#) c) (strip_underscores c cs))"

definition split_sign :: "string \<Rightarrow> bool \<times> string" where
  "split_sign t =
     (case t of
        [] \<Rightarrow> (False, [])
      | c # cs \<Rightarrow> if c = CHR ''-'' then (True, cs) else if c = CHR ''+'' then (False, cs)
                  else (False, t))"

definition pow10 :: "int \<Rightarrow> rat" where
  "pow10 k = (if 0 \<le> k then 10 ^ nat k else 1 / 10 ^ nat (- k))"

definition parse_exponent :: "string \<Rightarrow> int option" where
  "parse_exponent t =
     (case t of
        [] \<Rightarrow> Some 0
      | c # cs \<Rightarrow>
          if c = CHR ''e'' \<or> c = CHR ''E'' then
            (let (neg, ds) = split_sign cs in
             if ds \<noteq> [] \<and> list_all is_digit ds
             then Some (if neg then - int (digits_val ds) else int (digits_val ds))
             else None)
          else None)"

definition parse_decimal :: "string \<Rightarrow> rat option" where
  "parse_decimal t =
     (let ip = takeWhile is_digit t;
          r1 = dropWhile is_digit t;
          (fp, r2) = (case r1 of
                        [] \<Rightarrow> ([], [])
                      | c # cs \<Rightarrow> if c = CHR ''.''
                                  then (takeWhile is_digit cs, dropWhile is_digit cs)
                                  else ([], r1))
      in if ip = [] \<and> fp = [] then None
         else (case parse_exponent r2 of
                 None \<Rightarrow> None
               | Some e \<Rightarrow> Some (of_nat (digits_val (ip @ fp)) * pow10 (e - int (length fp)))))"

definition py_float :: "string \<Rightarrow> py_error + pyfloat" where
  "py_float t =
     (case strip_underscores CHR 0x00 (strip_chars is_float_space t) of
        None \<Rightarrow> Inl ValueError
      | Some u \<Rightarrow>
          (let (neg, w) = split_sign u in
           if py_lower w = ''inf'' \<or> py_lower w = ''infinity''
           then Inr (if neg then NegInf else PosInf)
           else if py_lower w = ''nan'' then Inr NaN
           else (case parse_decimal w of
                   None \<Rightarrow> Inl ValueError
                 | Some r \<Rightarrow> Inr (Finite (if neg then - r else r)))))"

text \<open>\<^verbatim>\<open>float(x)\<close> on a number: a float is returned as it is; an integer is converted, and
  raises OverflowError when it is too large for a double.\<close>

datatype pynum = NumInt int | NumFloat pyfloat

definition py_float_of_num :: "pynum \<Rightarrow> py_error + pyfloat" where
  "py_float_of_num x =
     (case x of
        NumFloat f \<Rightarrow> Inr f
      | NumInt n \<Rightarrow> if \<bar>n\<bar> < 2 ^ 1024 - 2 ^ 970 then Inr (Finite (of_int n))
                    else Inl OverflowError)"

subsection \<open>\<^verbatim>\<open>query_ascii_values\<close> of the VISA library\<close>

text \<open>
  \<^verbatim>\<open>self.device.query_ascii_values(message, converter)\<close> sends the query, reads the reply,
  splits it at the commas and returns the list of \<^verbatim>\<open>converter(token)\<close>, one entry for each
  token, in order. The default converter is \<^verbatim>\<open>float\<close>. A converter that raises ends the
  call with that error.
\<close>

fun convert_values ::
  "(string \<Rightarrow> trace \<Rightarrow> (py_error + 'a) \<times> trace) \<Rightarrow> string list \<Rightarrow> trace
     \<Rightarrow> (py_error + 'a list) \<times> trace" where
  "convert_values conv [] s = (Inr [], s)"
| "convert_values conv (t # ts) s =
     (case conv t s of
        (Inl e, s1) \<Rightarrow> (Inl e, s1)
      | (Inr v, s1) \<Rightarrow>
          (case convert_values conv ts s1 of
             (Inl e, s2) \<Rightarrow> (Inl e, s2)
           | (Inr vs, s2) \<Rightarrow> (Inr (v # vs), s2)))"

definition query_ascii_values ::
  "instrument \<Rightarrow> string \<Rightarrow> (string \<Rightarrow> trace \<Rightarrow> (py_error + 'a) \<times> trace) \<Rightarrow> trace
     \<Rightarrow> (py_error + 'a list) \<times> trace" where
  "query_ascii_values I message converter s =
     (let (block, s1) = device_ask I message s
      in convert_values converter (py_split CHR '','' block) s1)"

definition float_converter :: "string \<Rightarrow> trace \<Rightarrow> (py_error + pyfloat) \<times> trace" where
  "float_converter t s = (py_float t, s)"

text \<open>\<^verbatim>\<open>query_ascii_values(message)[0]\<close>: the first value of the reply.\<close>

definition query_first :: "instrument \<Rightarrow> string \<Rightarrow> trace \<Rightarrow> (py_error + pyfloat) \<times> trace" where
  "query_first I message s =
     (case query_ascii_values I message float_converter s of
        (Inl e, s1) \<Rightarrow> (Inl e, s1)
      | (Inr [], s1) \<Rightarrow> (Inl IndexError, s1)
      | (Inr (v # _), s1) \<Rightarrow> (Inr v, s1))"

section \<open>RigolDP832\<close>

definition dp832_turn_off :: "instrument \<Rightarrow> int \<Rightarrow> trace \<Rightarrow> (py_error + pyval) \<times> trace" where
  "dp832_turn_off I channel s =
     (if channel \<le> 0 \<or> channel > 3 then (Inl (RuntimeError ''Invalid channel!''), s)
      else base_write I ('':OUTP CH'' @ py_str_int channel @ '',OFF'') s)"

definition dp832_turn_on :: "instrument \<Rightarrow> int \<Rightarrow> trace \<Rightarrow> (py_error + pyval) \<times> trace" where
  "dp832_turn_on I channel s =
     (if channel \<le> 0 \<or> channel > 3 then (Inl (RuntimeError ''Invalid channel!''), s)
      else base_write I ('':OUTP CH'' @ py_str_int channel @ '',ON'') s)"

definition measure_voltage ::
  "instrument \<Rightarrow> int \<Rightarrow> bool \<Rightarrow> trace \<Rightarrow> (py_error + pyfloat) \<times> trace" where
  "measure_voltage I channel dc s =
     query_first I ('':MEAS:VOLT'' @ (if dc then '':DC'' else []) @ ''? CH''
                     @ py_str_int channel) s"

definition measure_current ::
  "instrument \<Rightarrow> int \<Rightarrow> bool \<Rightarrow> trace \<Rightarrow> (py_error + pyfloat) \<times> trace" where
  "measure_current I channel dc s =
     query_first I ('':MEAS:CURR'' @ (if dc then '':DC'' else []) @ ''? CH''
                     @ py_str_int channel) s"

definition measure_power ::
  "instrument \<Rightarrow> int \<Rightarrow> bool \<Rightarrow> trace \<Rightarrow> (py_error + pyfloat) \<times> trace" where
  "measure_power I channel dc s =
     query_first I ('':MEAS:ALL'' @ (if dc then '':DC'' else []) @ ''? CH''
                     @ py_str_int channel) s"

section \<open>Rigol1054Z\<close>

definition ds1054z_turn_on :: "instrument \<Rightarrow> int \<Rightarrow> trace \<Rightarrow> (py_error + pyval) \<times> trace" where
  "ds1054z_turn_on I channel s =
     (if channel \<le> 0 \<or> channel > 4 then (Inl (RuntimeError ''Invalid channel!''), s)
      else base_write I ('':CHAN'' @ py_str_int channel @ '':DISP ON'') s)"

definition ds1054z_turn_off :: "instrument \<Rightarrow> int \<Rightarrow> trace \<Rightarrow> (py_error + pyval) \<times> trace" where
  "ds1054z_turn_off I channel s =
     (if channel \<le> 0 \<or> channel > 4 then (Inl (RuntimeError ''Invalid channel!''), s)
      else base_write I ('':CHAN'' @ py_str_int channel @ '':DISP OFF'') s)"

text \<open>
  The scale, the offset and the two time settings may be any Python object; it reaches
  the command only through a \<^verbatim>\<open>{}\<close> field of \<^verbatim>\<open>str.format\<close>. The model takes the rendering
  of that object as the parameter \<open>fmt\<close>.
\<close>

definition channel_scale_set ::
  "('a \<Rightarrow> string) \<Rightarrow> instrument \<Rightarrow> int \<Rightarrow> 'a \<Rightarrow> trace \<Rightarrow> (py_error + pyval) \<times> trace" where
  "channel_scale_set fmt I channel scale_factor s =
     base_write I ('':CHAN'' @ py_str_int channel @ '':SCAL '' @ fmt scale_factor) s"

definition channel_scale_get :: "instrument \<Rightarrow> int \<Rightarrow> trace \<Rightarrow> (py_error + pyfloat) \<times> trace" where
  "channel_scale_get I channel s =
     query_first I ('':CHAN'' @ py_str_int channel @ '':SCAL?'') s"

definition channel_offset_set ::
  "('a \<Rightarrow> string) \<Rightarrow> instrument \<Rightarrow> int \<Rightarrow> 'a \<Rightarrow> trace \<Rightarrow> (py_error + pyval) \<times> trace" where
  "channel_offset_set fmt I channel offset s =
     base_write I ('':CHAN'' @ py_str_int channel @ '':OFFS '' @ fmt offset) s"

definition channel_offset_get :: "instrument \<Rightarrow> int \<Rightarrow> trace \<Rightarrow> (py_error + pyfloat) \<times> trace" where
  "channel_offset_get I channel s = query_first I '':WAV:YOR?'' s"

definition timescale ::
  "('a \<Rightarrow> string) \<Rightarrow> instrument \<Rightarrow> 'a \<Rightarrow> trace \<Rightarrow> (py_error + pyval) \<times> trace" where
  "timescale fmt I ts s = base_write I ('':TIM:SCAL '' @ fmt ts) s"

definition trigger_offset ::
  "('a \<Rightarrow> string) \<Rightarrow> instrument \<Rightarrow> 'a \<Rightarrow> trace \<Rightarrow> (py_error + pyval) \<times> trace" where
  "trigger_offset fmt I time_offset s = base_write I ('':TIM:OFFS '' @ fmt time_offset) s"

definition capture_start :: "instrument \<Rightarrow> trace \<Rightarrow> (py_error + pyval) \<times> trace" where
  "capture_start I s = base_write I '':START'' s"

definition capture_stop :: "instrument \<Rightarrow> trace \<Rightarrow> (py_error + pyval) \<times> trace" where
  "capture_stop I s = base_write I '':STOP'' s"

definition type_lookup :: "(string \<times> string) list" where
  "type_lookup = [(''single'', ''SING'')]"

definition slope_lookup :: "(string \<times> string) list" where
  "slope_lookup = [(''falling'', ''NEG''), (''rising'', ''POS'')]"

text \<open>\<^verbatim>\<open>d[k]\<close> on a dictionary: KeyError when the key is missing.\<close>

definition dict_get :: "(string \<times> string) list \<Rightarrow> string \<Rightarrow> py_error + string" where
  "dict_get d k = (case map_of d k of None \<Rightarrow> Inl (KeyError k) | Some v \<Rightarrow> Inr v)"

text \<open>
  \<^verbatim>\<open>':TRIG:EDGE:LEV {.5f}'.format(x)\<close>: the replacement field \<^verbatim>\<open>{.5f}\<close> has no colon, so
  \<^verbatim>\<open>.5f\<close> is not a format specification but the field's name: the next positional argument
  followed by its attribute \<^verbatim>\<open>5f\<close>. \<^verbatim>\<open>str.format\<close> looks the attribute up before it renders
  anything, and a float has no attribute of that name, so the call raises AttributeError
  whatever the float is.
\<close>

definition format_lev :: "pyfloat \<Rightarrow> py_error + string" where
  "format_lev x = Inl (AttributeError ''5f'')"

definition trigger_edge_config ::
  "instrument \<Rightarrow> int \<Rightarrow> pynum \<Rightarrow> string \<Rightarrow> string \<Rightarrow> string \<Rightarrow> trace
     \<Rightarrow> (py_error + pyval) \<times> trace" where
  "trigger_edge_config I channel level trig_type coupling slope s =
     (let coupling1 = py_upper (py_strip coupling) in
      if coupling1 \<noteq> ''DC'' \<and> coupling1 \<noteq> ''AC''
      then (Inl (RuntimeError ''Invalid coupling type!''), s)
      else
       (case dict_get slope_lookup (py_lower (py_strip slope)) of
          Inl e \<Rightarrow> (Inl e, s)
        | Inr slope1 \<Rightarrow>
       (case dict_get type_lookup (py_lower (py_strip trig_type)) of
          Inl e \<Rightarrow> (Inl e, s)
        | Inr trig_type1 \<Rightarrow>
       (case base_write I ('':TRIG:EDGE:SOUR CHAN'' @ py_str_int channel) s of
          (Inl e, s1) \<Rightarrow> (Inl e, s1)
        | (Inr _, s1) \<Rightarrow>
       (case base_write I ('':TRIG:EDGE:SWE '' @ trig_type1) s1 of
          (Inl e, s2) \<Rightarrow> (Inl e, s2)
        | (Inr _, s2) \<Rightarrow>
       (case base_write I ('':TRIG:EDGE:COUP '' @ coupling1) s2 of
          (Inl e, s3) \<Rightarrow> (Inl e, s3)
        | (Inr _, s3) \<Rightarrow>
       (case base_write I ('':TRIG:EDGE:SLOP '' @ slope1) s3 of
          (Inl e, s4) \<Rightarrow> (Inl e, s4)
        | (Inr _, s4) \<Rightarrow>
       (case py_float_of_num level of
          Inl e \<Rightarrow> (Inl e, s4)
        | Inr x \<Rightarrow>
       (case format_lev x of
          Inl e \<Rightarrow> (Inl e, s4)
        | Inr cmd \<Rightarrow> base_write I cmd s4)))))))))"

text \<open>
  \<^verbatim>\<open>conv_string\<close>, the converter nested in \<^verbatim>\<open>get_samples\<close>. \<^verbatim>\<open>string[0]\<close> is read only when
  the stripped string is non-empty, so it cannot fail. The result of
  \<^verbatim>\<open>string.replace("ee", "e")\<close> is not assigned: \<open>string\<close> goes to \<^verbatim>\<open>float\<close> as it was.
  The bare \<^verbatim>\<open>except\<close> turns every failure of \<^verbatim>\<open>float\<close> into the warning and \<open>None\<close>.
\<close>

definition conv_string :: "string \<Rightarrow> trace \<Rightarrow> (py_error + pyfloat option) \<times> trace" where
  "conv_string string s =
     (let dropped = (Inr None, print ''WARNING: Dropped packet!'' s) in
      if length (py_strip string) \<noteq> 0 then
        (let string1 = (if take 1 string = ''#'' then drop 11 string else string);
             discarded = py_replace ''ee'' ''e'' string1
         in case py_float string1 of
              Inr data \<Rightarrow> (Inr (Some data), s)
            | Inl _ \<Rightarrow> dropped)
      else dropped)"

definition get_samples ::
  "instrument \<Rightarrow> int \<Rightarrow> trace \<Rightarrow> (py_error + pyfloat option list) \<times> trace" where
  "get_samples I channel s =
     (case base_write I '':WAV:FORM ASCII'' s of
        (Inl e, s1) \<Rightarrow> (Inl e, s1)
      | (Inr _, s1) \<Rightarrow>
          (let s2 = device_write '':WAV:POIN:MODE RAW'' s1
           in query_ascii_values I '':WAV:DATA? CHAN1'' conv_string s2))"

definition samplerate_get :: "instrument \<Rightarrow> trace \<Rightarrow> (py_error + pyfloat) \<times> trace" where
  "samplerate_get I s = query_first I '':ACQ:SAMP?'' s"

section \<open>Properties of traces\<close>

fun is_transport :: "event \<Rightarrow> bool" where
  "is_transport (DevWrite _) = True"
| "is_transport (DevQuery _) = True"
| "is_transport _ = False"

text \<open>The commands and queries of a trace, in order.\<close>

definition transport :: "trace \<Rightarrow> trace" where
  "transport es = filter is_transport es"

text \<open>Every command written with no reply read is followed, as the next exchange with
  the instrument, by the error query.\<close>

fun writes_checked :: "trace \<Rightarrow> bool" where
  "writes_checked [] = True"
| "writes_checked (DevWrite m # es) =
     (take 1 (transport es) = [DevQuery ''SYST:ERR?''] \<and> writes_checked es)"
| "writes_checked (e # es) = writes_checked es"

fun sleep_of :: "event \<Rightarrow> rat" where
  "sleep_of (Sleep d) = d"
| "sleep_of _ = 0"

definition total_sleep :: "trace \<Rightarrow> rat" where
  "total_sleep es = sum_list (map sleep_of es)"

section \<open>Vocabulary of the properties\<close>

text \<open>The reply the instrument gives to the error query that follows the command
  \<open>message\<close> sent at trace \<open>s\<close>.\<close>

definition err_reply :: "instrument \<Rightarrow> string \<Rightarrow> trace \<Rightarrow> string" where
  "err_reply I message s = I (s @ [DevWrite message, Sleep (1 / 10)]) ''SYST:ERR?''"

text \<open>The events \<^verbatim>\<open>self.write(message)\<close> adds to the trace when the error reply is
  non-empty.\<close>

definition exchange :: "string \<Rightarrow> trace" where
  "exchange message =
     [DevWrite message, Sleep (1 / 10), DevQuery ''SYST:ERR?'',
      Print (''`'' @ message @ ''` recieved. No error occured'')]"

text \<open>The tokens of the reply to the waveform query of \<^verbatim>\<open>get_samples\<close> called at trace
  \<open>s\<close>.\<close>

definition waveform_tokens :: "instrument \<Rightarrow> trace \<Rightarrow> string list" where
  "waveform_tokens I s =
     py_split CHR '',''
       (I (s @ exchange '':WAV:FORM ASCII'' @ [DevWrite '':WAV:POIN:MODE RAW''])
          '':WAV:DATA? CHAN1'')"

text \<open>What is left of a token once the block header is stripped, and the tokens that
  hold a number: not blank, and read by \<^verbatim>\<open>float\<close> once the header is stripped.\<close>

definition payload :: "string \<Rightarrow> string" where
  "payload t = (if take 1 t = ''#'' then drop 11 t else t)"

definition well_formed :: "string \<Rightarrow> bool" where
  "well_formed t \<longleftrightarrow> py_strip t \<noteq> [] \<and> \<not> isl (py_float (payload t))"

definition token_value :: "string \<Rightarrow> pyfloat" where
  "token_value t = projr (py_float (payload t))"

text \<open>The warnings \<^verbatim>\<open>conv_string\<close> prints for a list of tokens.\<close>

fun warnings :: "string list \<Rightarrow> trace" where
  "warnings [] = []"
| "warnings (t # ts) =
     (if well_formed t then warnings ts
      else Print ''WARNING: Dropped packet!'' # warnings ts)"

text \<open>The tokens with a doubled exponent marker.\<close>

fun has_ee :: "string \<Rightarrow> bool" where
  "has_ee (a # b # cs) = (a = CHR ''e'' \<and> b = CHR ''e'' \<or> has_ee (b # cs))"
| "has_ee _ = False"

text \<open>An instrument that answers each query from a table, and with the empty string
  when the query is not in the table.\<close>

definition scripted :: "(string \<times> string) list \<Rightarrow> instrument" where
  "scripted replies h q = (case map_of replies q of Some r \<Rightarrow> r | None \<Rightarrow> [])"

section \<open>The write-then-verify exchange\<close>

lemma write_nonempty:
  "err_reply I message s \<noteq> [] \<Longrightarrow>
   base_write I message s =
     (Inr (PyInt 0),
      s @ exchange message)"
  by (cases "err_reply I message s")
     (simp_all add: base_write_def err_reply_def device_write_def device_ask_def time_sleep_def
        print_def str_item0_def str_truth_def exchange_def)

lemma write_empty:
  "err_reply I message s = [] \<Longrightarrow>
   base_write I message s =
     (Inl IndexError, s @ [DevWrite message, Sleep (1 / 10), DevQuery ''SYST:ERR?''])"
  by (simp add: base_write_def err_reply_def device_write_def device_ask_def time_sleep_def
        str_item0_def)

text \<open>C1. After the write, the delay and the error query, \<^verbatim>\<open>write\<close> tests the truth of
  \<^verbatim>\<open>error[0]\<close>, the first character of the reply, which is true for every character. So the
  error reply \<^verbatim>\<open>1, "Undefined header"\<close> gives the same report as the reply \<^verbatim>\<open>0,"No error"\<close>:
  the value 0, with the text "No error occured" printed. An empty reply raises
  IndexError.\<close>

theorem write_reports_ok_on_error_reply:
  "base_write (scripted [(''SYST:ERR?'', ''1, \"Undefined header\"'')]) '':OUTP CH1,ON'' [] =
     (Inr (PyInt 0),
      [DevWrite '':OUTP CH1,ON'', Sleep (1 / 10), DevQuery ''SYST:ERR?'',
       Print ''`:OUTP CH1,ON` recieved. No error occured''])
   \<and> fst (base_write (scripted [(''SYST:ERR?'', ''1, \"Undefined header\"'')]) '':OUTP CH1,ON'' [])
     = fst (base_write (scripted [(''SYST:ERR?'', ''0,\"No error\"'')]) '':OUTP CH1,ON'' [])
   \<and> fst (base_write (scripted []) '':OUTP CH1,ON'' []) = Inl IndexError"
  by (simp add: write_nonempty write_empty err_reply_def scripted_def exchange_def)

text \<open>C8. Every call of \<^verbatim>\<open>write\<close> sleeps 0.1 s between the command and the error query,
  and nothing else happens in between. A \<^verbatim>\<open>reset\<close> that returns has sent \<^verbatim>\<open>*RST\<close> in that
  way and then slept a further 0.2 s as its last event, 0.3 s in all, which is more than
  the 0.1 s of a plain write; and it returns whenever the error reply is non-empty.\<close>

theorem write_reset_delays:
  "(\<exists>out. snd (base_write I message s)
             = s @ [DevWrite message, Sleep (1 / 10), DevQuery ''SYST:ERR?''] @ out
          \<and> set out \<subseteq> range Print)
   \<and> (\<forall>r s'. reset I s = (Inr r, s') \<longrightarrow>
        (\<exists>out. s' = s @ [DevWrite ''*RST'', Sleep (1 / 10), DevQuery ''SYST:ERR?''] @ out
                       @ [Sleep (2 / 10)]
             \<and> set out \<subseteq> range Print)
        \<and> total_sleep (drop (length s) s') = 3 / 10)
   \<and> (err_reply I ''*RST'' s \<noteq> [] \<longrightarrow> fst (reset I s) = Inr ())
   \<and> total_sleep (drop (length s) (snd (base_write I message s))) = 1 / 10
   \<and> (1 / 10 :: rat) < 2 / 10 \<and> (1 / 10 :: rat) < 3 / 10"
proof -
  have a: "\<exists>out. snd (base_write I m s) = s @ [DevWrite m, Sleep (1 / 10), DevQuery ''SYST:ERR?''] @ out
          \<and> set out \<subseteq> range Print" for m
    by (cases "err_reply I m s = []") (simp_all add: write_empty write_nonempty exchange_def)
  have b: "total_sleep (drop (length s) (snd (base_write I m s))) = 1 / 10" for m
    by (cases "err_reply I m s = []")
       (simp_all add: write_empty write_nonempty exchange_def total_sleep_def)
  have c: "(\<exists>out. s' = s @ [DevWrite ''*RST'', Sleep (1 / 10), DevQuery ''SYST:ERR?''] @ out
                       @ [Sleep (2 / 10)]
             \<and> set out \<subseteq> range Print)
        \<and> total_sleep (drop (length s) s') = 3 / 10" if "reset I s = (Inr r, s')" for r s'
    using that
    by (cases "err_reply I ''*RST'' s = []")
       (auto simp: reset_def write_empty write_nonempty exchange_def total_sleep_def
          time_sleep_def)
  have d: "err_reply I ''*RST'' s \<noteq> [] \<Longrightarrow> fst (reset I s) = Inr ()"
    by (simp add: reset_def write_nonempty)
  show ?thesis using a b c d by simp
qed

theorem write_reset_delays_witness:
  "reset (scripted [(''SYST:ERR?'', ''0,\"No error\"'')]) [] =
     (Inr (), [DevWrite ''*RST'', Sleep (1 / 10), DevQuery ''SYST:ERR?'',
               Print ''`*RST` recieved. No error occured'', Sleep (2 / 10)])
   \<and> total_sleep (snd (reset (scripted [(''SYST:ERR?'', ''0,\"No error\"'')]) [])) = 3 / 10
   \<and> err_reply (scripted [(''SYST:ERR?'', ''0,\"No error\"'')]) ''*RST'' [] \<noteq> []"
  using write_reset_delays [of "scripted [(''SYST:ERR?'', ''0,\"No error\"'')]" "''*RST''" "[]"]
  by (simp add: reset_def write_nonempty err_reply_def scripted_def exchange_def time_sleep_def
        total_sleep_def)

section \<open>The edge trigger\<close>

lemma trigger_edge_config_isl:
  "isl (fst (trigger_edge_config I channel level trig_type coupling slope s))"
  by (auto simp: trigger_edge_config_def format_lev_def Let_def split: sum.splits prod.splits)

text \<open>C3. \<^verbatim>\<open>trigger_edge_config(1, level=0.5, slope="rising")\<close> on an instrument that reports
  no error: the source, sweep, coupling and slope commands are sent, then building the
  level command raises AttributeError, and no level command is sent.\<close>

theorem trigger_edge_config_level_raises:
  "trigger_edge_config (scripted [(''SYST:ERR?'', ''0,\"No error\"'')]) 1
       (NumFloat (Finite (1 / 2))) ''single'' ''DC'' ''rising'' [] =
     (Inl (AttributeError ''5f''),
      exchange '':TRIG:EDGE:SOUR CHAN1'' @ exchange '':TRIG:EDGE:SWE SING''
        @ exchange '':TRIG:EDGE:COUP DC'' @ exchange '':TRIG:EDGE:SLOP POS'')"
  by (simp add: trigger_edge_config_def write_nonempty err_reply_def scripted_def
        format_lev_def py_float_of_num_def dict_get_def slope_lookup_def type_lookup_def
        py_upper_def py_lower_def py_strip_def strip_chars_def is_space_def upper_char_def lower_char_def
        py_str_int_def)

section \<open>Channel validation of \<^verbatim>\<open>turn_on\<close> and \<^verbatim>\<open>turn_off\<close>\<close>

text \<open>C5. On both instruments \<^verbatim>\<open>turn_on\<close> and \<^verbatim>\<open>turn_off\<close> pass the check for every channel
  from 1 to the maximum (3 on the supply, 4 on the scope): the command is then the next
  event, and the call does not end with the invalid-channel error. For every other
  channel the call raises \<^verbatim>\<open>RuntimeError("Invalid channel!")\<close> and the trace is unchanged.\<close>

theorem turn_on_off_validation:
  "(1 \<le> c \<and> c \<le> 3 \<longrightarrow>
      (\<exists>out. snd (dp832_turn_on I c s) = s @ DevWrite ('':OUTP CH'' @ py_str_int c @ '',ON'') # out)
    \<and> (\<exists>out. snd (dp832_turn_off I c s) = s @ DevWrite ('':OUTP CH'' @ py_str_int c @ '',OFF'') # out)
    \<and> fst (dp832_turn_on I c s) \<noteq> Inl (RuntimeError ''Invalid channel!'')
    \<and> fst (dp832_turn_off I c s) \<noteq> Inl (RuntimeError ''Invalid channel!''))
   \<and> (\<not> (1 \<le> c \<and> c \<le> 3) \<longrightarrow>
      dp832_turn_on I c s = (Inl (RuntimeError ''Invalid channel!''), s)
    \<and> dp832_turn_off I c s = (Inl (RuntimeError ''Invalid channel!''), s))
   \<and> (1 \<le> c \<and> c \<le> 4 \<longrightarrow>
      (\<exists>out. snd (ds1054z_turn_on I c s) = s @ DevWrite ('':CHAN'' @ py_str_int c @ '':DISP ON'') # out)
    \<and> (\<exists>out. snd (ds1054z_turn_off I c s) = s @ DevWrite ('':CHAN'' @ py_str_int c @ '':DISP OFF'') # out)
    \<and> fst (ds1054z_turn_on I c s) \<noteq> Inl (RuntimeError ''Invalid channel!'')
    \<and> fst (ds1054z_turn_off I c s) \<noteq> Inl (RuntimeError ''Invalid channel!''))
   \<and> (\<not> (1 \<le> c \<and> c \<le> 4) \<longrightarrow>
      ds1054z_turn_on I c s = (Inl (RuntimeError ''Invalid channel!''), s)
    \<and> ds1054z_turn_off I c s = (Inl (RuntimeError ''Invalid channel!''), s))"
proof -
  have w: "\<exists>out. snd (base_write I m s) = s @ DevWrite m # out" for m
    by (cases "err_reply I m s = []") (simp_all add: write_empty write_nonempty exchange_def)
  have r: "fst (base_write I m s) \<noteq> Inl (RuntimeError ''Invalid channel!'')" for m
    by (cases "err_reply I m s = []") (simp_all add: write_empty write_nonempty)
  show ?thesis
    by (simp add: dp832_turn_on_def dp832_turn_off_def ds1054z_turn_on_def ds1054z_turn_off_def
          w r)
qed


theorem turn_on_off_validation_witness:
  "dp832_turn_on (scripted [(''SYST:ERR?'', ''0,\"No error\"'')]) 0 [] = (Inl (RuntimeError ''Invalid channel!''), [])
   \<and> dp832_turn_off (scripted [(''SYST:ERR?'', ''0,\"No error\"'')]) 4 [] = (Inl (RuntimeError ''Invalid channel!''), [])
   \<and> ds1054z_turn_on (scripted [(''SYST:ERR?'', ''0,\"No error\"'')]) 5 [] = (Inl (RuntimeError ''Invalid channel!''), [])
   \<and> (\<exists>out. snd (dp832_turn_on (scripted [(''SYST:ERR?'', ''0,\"No error\"'')]) 3 []) = DevWrite '':OUTP CH3,ON'' # out)
   \<and> (\<exists>out. snd (ds1054z_turn_off (scripted [(''SYST:ERR?'', ''0,\"No error\"'')]) 4 []) = DevWrite '':CHAN4:DISP OFF'' # out)"
  using turn_on_off_validation [of 0 "scripted [(''SYST:ERR?'', ''0,\"No error\"'')]" "[]"]
    turn_on_off_validation [of 4 "scripted [(''SYST:ERR?'', ''0,\"No error\"'')]" "[]"]
    turn_on_off_validation [of 5 "scripted [(''SYST:ERR?'', ''0,\"No error\"'')]" "[]"]
    turn_on_off_validation [of 3 "scripted [(''SYST:ERR?'', ''0,\"No error\"'')]" "[]"]
  by (simp add: py_str_int_def)

text \<open>C9. On the supply, \<^verbatim>\<open>turn_on(2)\<close> sends \<^verbatim>\<open>:OUTP CH2,ON\<close> and \<^verbatim>\<open>turn_off(2)\<close> sends
  \<^verbatim>\<open>:OUTP CH2,OFF\<close>: two different commands, with the channel 2, equal up to the last
  token.\<close>

theorem dp832_on_off_commands:
  "take 1 (drop (length s) (snd (dp832_turn_on I 2 s))) = [DevWrite ('':OUTP CH'' @ ''2'' @ '','' @ ''ON'')]
   \<and> take 1 (drop (length s) (snd (dp832_turn_off I 2 s))) = [DevWrite ('':OUTP CH'' @ ''2'' @ '','' @ ''OFF'')]
   \<and> '':OUTP CH'' @ ''2'' @ '','' @ ''ON'' \<noteq> '':OUTP CH'' @ ''2'' @ '','' @ ''OFF''"
proof -
  have w: "take 1 (drop (length s) (snd (base_write I m s))) = [DevWrite m]" for m
    by (cases "err_reply I m s = []") (simp_all add: write_empty write_nonempty exchange_def)
  show ?thesis
    using w [of "'':OUTP CH2,ON''"] w [of "'':OUTP CH2,OFF''"]
    by (simp add: dp832_turn_on_def dp832_turn_off_def py_str_int_def)
qed

section \<open>The waveform decoder\<close>

lemma py_float_error: "py_float t = Inl e \<Longrightarrow> e = ValueError"
  by (auto simp: py_float_def Let_def split: option.splits prod.splits if_splits)

lemma conv_string_eq:
  "conv_string t u =
     (if well_formed t then (Inr (Some (token_value t)), u)
      else (Inr None, u @ [Print ''WARNING: Dropped packet!'']))"
  by (auto simp: conv_string_def well_formed_def token_value_def payload_def print_def Let_def
        split: sum.splits)

lemma convert_values_conv_string:
  "convert_values conv_string ts u =
     (Inr (map (\<lambda>t. if well_formed t then Some (token_value t) else None) ts),
      u @ warnings ts)"
  by (induction ts arbitrary: u) (simp_all add: conv_string_eq)

lemma transport_warnings: "transport (warnings ts) = []"
  by (induction ts) (simp_all add: transport_def)

lemma get_samples_nonempty:
  "err_reply I '':WAV:FORM ASCII'' s \<noteq> [] \<Longrightarrow>
   get_samples I c s =
     (Inr (map (\<lambda>t. if well_formed t then Some (token_value t) else None) (waveform_tokens I s)),
      s @ exchange '':WAV:FORM ASCII'' @ [DevWrite '':WAV:POIN:MODE RAW'', DevQuery '':WAV:DATA? CHAN1'']
        @ warnings (waveform_tokens I s))"
  by (simp add: get_samples_def write_nonempty device_write_def query_ascii_values_def
        device_ask_def convert_values_conv_string waveform_tokens_def)

lemma get_samples_empty:
  "err_reply I '':WAV:FORM ASCII'' s = [] \<Longrightarrow>
   get_samples I c s =
     (Inl IndexError, s @ [DevWrite '':WAV:FORM ASCII'', Sleep (1 / 10), DevQuery ''SYST:ERR?''])"
  by (simp add: get_samples_def write_empty)

lemma has_ee_Cons: "has_ee t \<Longrightarrow> has_ee (c # t)"
  by (cases t) simp_all

lemma has_ee_drop: "has_ee (drop n t) \<Longrightarrow> has_ee t"
proof (induction t arbitrary: n)
  case Nil
  then show ?case by simp
next
  case (Cons c t)
  then show ?case by (cases n) (auto intro: has_ee_Cons)
qed

lemma replace_without_ee: "\<not> has_ee t \<Longrightarrow> py_replace ''ee'' ''e'' t = t"
  by (induction t rule: has_ee.induct) auto

lemma payload_without_ee: "\<not> has_ee t \<Longrightarrow> py_replace ''ee'' ''e'' (payload t) = payload t"
  by (rule replace_without_ee) (auto simp: payload_def dest: has_ee_drop)

lemma map_filter_samples:
  "List.map_filter id (map (\<lambda>t. if well_formed t then Some (token_value t) else None) ts)
     = map token_value (filter well_formed ts)"
  by (induction ts) (simp_all add: List.map_filter_simps)

lemma count_none_samples:
  "length (filter (\<lambda>v. v = None) (map (\<lambda>t. if well_formed t then Some (token_value t) else None) ts))
     = length (filter (\<lambda>t. \<not> well_formed t) ts)"
  by (induction ts) simp_all

text \<open>C7. \<^verbatim>\<open>get_samples\<close> gives the same result and the same trace for any two channel
  arguments: the channel is not checked (the call never ends with the invalid-channel
  error) and the waveform query is always \<^verbatim>\<open>:WAV:DATA? CHAN1\<close>.\<close>

theorem get_samples_ignores_channel:
  "get_samples I c s = get_samples I c' s
   \<and> fst (get_samples I c s) \<noteq> Inl (RuntimeError ''Invalid channel!'')
   \<and> (err_reply I '':WAV:FORM ASCII'' s \<noteq> [] \<longrightarrow>
        transport (drop (length s) (snd (get_samples I c s))) =
          [DevWrite '':WAV:FORM ASCII'', DevQuery ''SYST:ERR?'',
           DevWrite '':WAV:POIN:MODE RAW'', DevQuery '':WAV:DATA? CHAN1''])"
proof -
  have a: "get_samples I c s = get_samples I c' s"
    by (simp add: get_samples_def)
  have b: "fst (get_samples I c s) \<noteq> Inl (RuntimeError ''Invalid channel!'')"
    by (cases "err_reply I '':WAV:FORM ASCII'' s = []")
       (simp_all add: get_samples_empty get_samples_nonempty)
  have c: "transport (drop (length s) (snd (get_samples I c s))) =
          [DevWrite '':WAV:FORM ASCII'', DevQuery ''SYST:ERR?'',
           DevWrite '':WAV:POIN:MODE RAW'', DevQuery '':WAV:DATA? CHAN1'']"
    if "err_reply I '':WAV:FORM ASCII'' s \<noteq> []"
    using that transport_warnings [of "waveform_tokens I s"]
    by (simp add: get_samples_nonempty exchange_def transport_def)
  show ?thesis using a b c by simp
qed

theorem get_samples_ignores_channel_witness:
  "err_reply (scripted [(''SYST:ERR?'', ''0,\"No error\"''), ('':WAV:DATA? CHAN1'', ''0.5,0.25'')])
       '':WAV:FORM ASCII'' [] \<noteq> []
   \<and> fst (get_samples (scripted [(''SYST:ERR?'', ''0,\"No error\"''), ('':WAV:DATA? CHAN1'', ''0.5,0.25'')]) 3 [])
     = fst (get_samples (scripted [(''SYST:ERR?'', ''0,\"No error\"''), ('':WAV:DATA? CHAN1'', ''0.5,0.25'')]) 1 [])
   \<and> transport (snd (get_samples (scripted [(''SYST:ERR?'', ''0,\"No error\"''), ('':WAV:DATA? CHAN1'', ''0.5,0.25'')]) 3 []))
     = [DevWrite '':WAV:FORM ASCII'', DevQuery ''SYST:ERR?'',
        DevWrite '':WAV:POIN:MODE RAW'', DevQuery '':WAV:DATA? CHAN1'']"
  using get_samples_ignores_channel
    [of "scripted [(''SYST:ERR?'', ''0,\"No error\"''), ('':WAV:DATA? CHAN1'', ''0.5,0.25'')]" 3 "[]" 1]
  by (auto simp: err_reply_def scripted_def)

text \<open>C10. When \<^verbatim>\<open>get_samples\<close> returns, its result has one entry for each token of the reply,
  and the entry is \<open>None\<close> exactly for the tokens that are blank or that \<^verbatim>\<open>float\<close> does not
  read once the header is stripped: the placeholders stay in the list.\<close>

theorem get_samples_keeps_none:
  assumes "err_reply I '':WAV:FORM ASCII'' s \<noteq> []"
  shows "\<exists>data. fst (get_samples I c s) = Inr data
           \<and> length data = length (waveform_tokens I s)
           \<and> (\<forall>i<length data.
                 data ! i = None \<longleftrightarrow>
                   (py_strip (waveform_tokens I s ! i) = []
                    \<or> py_float (payload (waveform_tokens I s ! i)) = Inl ValueError))"
proof -
  let ?ts = "waveform_tokens I s"
  let ?data = "map (\<lambda>t. if well_formed t then Some (token_value t) else None) ?ts"
  have w: "well_formed t \<longleftrightarrow> \<not> (py_strip t = [] \<or> py_float (payload t) = Inl ValueError)"
    for t
    by (cases "py_float (payload t)") (auto simp: well_formed_def dest: py_float_error)
  have "fst (get_samples I c s) = Inr ?data"
    using assms by (simp add: get_samples_nonempty)
  moreover have "length ?data = length ?ts"
    by simp
  moreover have "\<forall>i<length ?data. ?data ! i = None \<longleftrightarrow>
      (py_strip (?ts ! i) = [] \<or> py_float (payload (?ts ! i)) = Inl ValueError)"
    by (simp add: w)
  ultimately show ?thesis
    by blast
qed

theorem get_samples_keeps_none_witness:
  "err_reply (scripted [(''SYST:ERR?'', ''0,\"No error\"''), ('':WAV:DATA? CHAN1'', '' ,2.5,x'')])
       '':WAV:FORM ASCII'' [] \<noteq> []
   \<and> waveform_tokens (scripted [(''SYST:ERR?'', ''0,\"No error\"''), ('':WAV:DATA? CHAN1'', '' ,2.5,x'')]) []
     = ['' '', ''2.5'', ''x'']
   \<and> fst (get_samples (scripted [(''SYST:ERR?'', ''0,\"No error\"''), ('':WAV:DATA? CHAN1'', '' ,2.5,x'')]) 1 [])
     = Inr [None, Some (Finite (5 / 2)), None]"
proof -
  have e: "err_reply (scripted [(''SYST:ERR?'', ''0,\"No error\"''), ('':WAV:DATA? CHAN1'', '' ,2.5,x'')])
       '':WAV:FORM ASCII'' [] \<noteq> []"
    by (simp add: err_reply_def scripted_def)
  have v: "waveform_tokens (scripted [(''SYST:ERR?'', ''0,\"No error\"''), ('':WAV:DATA? CHAN1'', '' ,2.5,x'')]) []
       = ['' '', ''2.5'', ''x'']
     \<and> fst (get_samples (scripted [(''SYST:ERR?'', ''0,\"No error\"''), ('':WAV:DATA? CHAN1'', '' ,2.5,x'')]) 1 [])
       = Inr [None, Some (Finite (5 / 2)), None]"
    by code_simp
  from get_samples_keeps_none [OF e, of 1] e v show ?thesis
    by blast
qed

text \<open>C2, as stated, fails on the token list of its example: the decoder returns five
  entries, four of them \<open>None\<close>, and not the two samples 1.23 and 4.5e6; so does
  \<^verbatim>\<open>get_samples\<close> on a reply made of these tokens.\<close>

theorem decode_example_counterexample:
  "fst (convert_values conv_string [''#800000005'', ''1.23'', [], ''4.5ee6'', ''bad''] [])
     = Inr [None, Some (Finite (123 / 100)), None, None, None]
   \<and> fst (convert_values conv_string [''#800000005'', ''1.23'', [], ''4.5ee6'', ''bad''] [])
     \<noteq> Inr [Some (Finite (123 / 100)), Some (Finite 4500000)]
   \<and> waveform_tokens
       (scripted [(''SYST:ERR?'', ''0,\"No error\"''),
                  ('':WAV:DATA? CHAN1'', ''#800000005,1.23,,4.5ee6,bad'')]) []
     = [''#800000005'', ''1.23'', [], ''4.5ee6'', ''bad'']
   \<and> fst (get_samples
        (scripted [(''SYST:ERR?'', ''0,\"No error\"''),
                   ('':WAV:DATA? CHAN1'', ''#800000005,1.23,,4.5ee6,bad'')]) 1 [])
     = Inr [None, Some (Finite (123 / 100)), None, None, None]"
  by code_simp

text \<open>C2, amended. For a token list in which no token has a doubled exponent marker, the
  decoder raises nothing and returns one entry for each token, in order: the value of a
  well-formed token, \<open>None\<close> for a malformed one. So N well-formed and M malformed tokens
  give N + M entries, and the entries that are not \<open>None\<close> are the N samples in their
  original order; it is what \<^verbatim>\<open>get_samples\<close> returns on a reply made of these tokens. For
  such tokens the replacement of the doubled marker would change nothing.\<close>

theorem decode_one_entry_per_token:
  assumes "\<forall>t\<in>set tokens. \<not> has_ee t"
  shows "\<exists>data out. convert_values conv_string tokens u = (Inr data, u @ out)
           \<and> length data = length tokens
           \<and> (\<forall>i<length tokens.
                 data ! i = (if well_formed (tokens ! i)
                             then Some (token_value (tokens ! i)) else None))
           \<and> List.map_filter id data = map token_value (filter well_formed tokens)
           \<and> length (filter (\<lambda>v. v = None) data)
               = length (filter (\<lambda>t. \<not> well_formed t) tokens)
           \<and> (\<forall>t\<in>set tokens. py_replace ''ee'' ''e'' (payload t) = payload t)
           \<and> (\<forall>I c s. err_reply I '':WAV:FORM ASCII'' s \<noteq> [] \<and> waveform_tokens I s = tokens
                  \<longrightarrow> fst (get_samples I c s) = Inr data)"
proof -
  let ?data = "map (\<lambda>t. if well_formed t then Some (token_value t) else None) tokens"
  have "convert_values conv_string tokens u = (Inr ?data, u @ warnings tokens)"
    by (rule convert_values_conv_string)
  moreover have "length ?data = length tokens"
    by simp
  moreover have "\<forall>i<length tokens.
      ?data ! i = (if well_formed (tokens ! i) then Some (token_value (tokens ! i)) else None)"
    by simp
  moreover have "List.map_filter id ?data = map token_value (filter well_formed tokens)"
    by (rule map_filter_samples)
  moreover have "length (filter (\<lambda>v. v = None) ?data)
      = length (filter (\<lambda>t. \<not> well_formed t) tokens)"
    by (rule count_none_samples)
  moreover have "\<forall>t\<in>set tokens. py_replace ''ee'' ''e'' (payload t) = payload t"
    using assms by (simp add: payload_without_ee)
  moreover have "\<forall>I c s. err_reply I '':WAV:FORM ASCII'' s \<noteq> [] \<and> waveform_tokens I s = tokens
      \<longrightarrow> fst (get_samples I c s) = Inr ?data"
    by (auto simp: get_samples_nonempty)
  ultimately show ?thesis
    by blast
qed

theorem decode_one_entry_per_token_witness:
  "filter has_ee [''#800000005'', ''1.23'', [], ''bad''] = []
   \<and> fst (convert_values conv_string [''#800000005'', ''1.23'', [], ''bad''] [])
     = Inr [None, Some (Finite (123 / 100)), None, None]
   \<and> fst (get_samples (scripted [(''SYST:ERR?'', ''0,\"No error\"''), ('':WAV:DATA? CHAN1'', ''#800000005,1.23,,bad'')]) 1 [])
     = Inr [None, Some (Finite (123 / 100)), None, None]"
proof -
  have f: "filter has_ee [''#800000005'', ''1.23'', [], ''bad''] = []"
    by simp
  have h: "\<forall>t\<in>set [''#800000005'', ''1.23'', [], ''bad'']. \<not> has_ee t"
    by simp
  have v: "fst (convert_values conv_string [''#800000005'', ''1.23'', [], ''bad''] [])
     = Inr [None, Some (Finite (123 / 100)), None, None]"
    by code_simp
  have e: "err_reply (scripted [(''SYST:ERR?'', ''0,\"No error\"''), ('':WAV:DATA? CHAN1'', ''#800000005,1.23,,bad'')])
       '':WAV:FORM ASCII'' [] \<noteq> []"
    by (simp add: err_reply_def scripted_def)
  have t: "waveform_tokens (scripted [(''SYST:ERR?'', ''0,\"No error\"''), ('':WAV:DATA? CHAN1'', ''#800000005,1.23,,bad'')]) []
     = [''#800000005'', ''1.23'', [], ''bad'']"
    by code_simp
  from decode_one_entry_per_token [OF h, of "[]"] obtain data where
    d: "fst (convert_values conv_string [''#800000005'', ''1.23'', [], ''bad''] []) = Inr data"
    and g: "\<forall>I c s. err_reply I '':WAV:FORM ASCII'' s \<noteq> []
              \<and> waveform_tokens I s = [''#800000005'', ''1.23'', [], ''bad'']
              \<longrightarrow> fst (get_samples I c s) = Inr data"
    by auto
  from d v have "data = [None, Some (Finite (123 / 100)), None, None]"
    by simp
  with g e t f v show ?thesis
    by simp
qed

section \<open>Error checks after writes\<close>

lemma writes_checked_exchange: "writes_checked (exchange m)"
  by (simp add: exchange_def transport_def)

lemma base_write_checked: "writes_checked (drop (length s) (snd (base_write I m s)))"
  by (cases "err_reply I m s = []")
     (simp_all add: write_empty write_nonempty exchange_def transport_def)

text \<open>C4. In \<^verbatim>\<open>get_samples\<close> the command \<^verbatim>\<open>:WAV:POIN:MODE RAW\<close> goes to the transport through
  \<^verbatim>\<open>self.device.write\<close>, and the next exchange is the waveform query, not the error query.\<close>

theorem get_samples_write_unchecked:
  "transport (snd (get_samples (scripted [(''SYST:ERR?'', ''0,\"No error\"''), ('':WAV:DATA? CHAN1'', ''1.23'')]) 1 []))
     = [DevWrite '':WAV:FORM ASCII'', DevQuery ''SYST:ERR?'',
        DevWrite '':WAV:POIN:MODE RAW'', DevQuery '':WAV:DATA? CHAN1'']
   \<and> \<not> writes_checked (snd (get_samples (scripted [(''SYST:ERR?'', ''0,\"No error\"''), ('':WAV:DATA? CHAN1'', ''1.23'')]) 1 []))"
  by code_simp

section \<open>Operations that do not check the channel\<close>

text \<open>C6. The scale and offset setters, the scale getter, the edge trigger and the voltage
  measurement send a command with a channel outside the valid range; \<^verbatim>\<open>turn_on\<close> of the
  same class refuses that channel.\<close>

theorem invalid_channel_reaches_transport:
  "snd (channel_scale_set py_str_int (scripted [(''SYST:ERR?'', ''0,\"No error\"'')]) 7 1 [])
     = exchange '':CHAN7:SCAL 1''
   \<and> snd (channel_offset_set py_str_int (scripted [(''SYST:ERR?'', ''0,\"No error\"'')]) 0 1 [])
     = exchange '':CHAN0:OFFS 1''
   \<and> snd (channel_scale_get (scripted [('':CHAN-1:SCAL?'', ''1.0'')]) (- 1) [])
     = [DevQuery '':CHAN-1:SCAL?'']
   \<and> take 1 (snd (trigger_edge_config (scripted [(''SYST:ERR?'', ''0,\"No error\"'')]) 9
                    (NumInt 0) ''single'' ''DC'' ''falling'' []))
     = [DevWrite '':TRIG:EDGE:SOUR CHAN9'']
   \<and> transport (snd (measure_voltage (scripted [('':MEAS:VOLT? CH5'', ''3.3'')]) 5 False []))
     = [DevQuery '':MEAS:VOLT? CH5'']
   \<and> ds1054z_turn_on (scripted [(''SYST:ERR?'', ''0,\"No error\"'')]) 7 []
     = (Inl (RuntimeError ''Invalid channel!''), [])"
  by code_simp

end
